theory Spec2Isabelle
  imports Main "HOL-Library.DAList"
begin

section \<open>Data model of \<open>server/api/mcp-chat.ts\<close>\<close>

text \<open>
  The metadata of a session is an open bag of JSON values that arrives in the request body
  and is never interpreted by the server. Numbers are kept as integers here; no function
  below looks inside a metadata value.
\<close>

datatype json =
    JNull
  | JBool bool
  | JNum int
  | JStr string
  | JArr "json list"
  | JObj "(string \<times> json) list"

type_synonym metadata_bag = "(string \<times> json) list"

text \<open>
  One entry of \<open>MCPSession.messages\<close>. The union type of \<open>role\<close> is erased at run time,
  and the messages of a request body are untyped, so the role is a string. The optional
  \<open>name\<close> is \<open>None\<close> when the property is absent.
\<close>

record message =
  role :: string
  content :: string
  name :: "string option"

text \<open>
  A JavaScript \<open>Date\<close>: the instant it denotes, in milliseconds since the epoch, or the
  Invalid Date (time value \<open>NaN\<close>).
\<close>

datatype date =
    Instant int
  | InvalidDate

text \<open>\<open>type MCPSession\<close>.\<close>

record MCPSession =
  conversationId :: string
  messages :: "message list"
  metadata :: metadata_bag
  createdAt :: date
  updatedAt :: date

text \<open>
  A session object as \<open>JSON.parse\<close> returns it, before \<open>loadSessions\<close> touches it. The loop
  of \<open>loadSessions\<close> casts the object to \<open>MCPSession\<close> and reads only its two date
  properties, so those two are kept as the JSON values found (\<open>None\<close> when the property is
  absent), and the other properties have the types that the cast gives them.
\<close>

record stored_session =
  stored_conversationId :: string
  stored_messages :: "message list"
  stored_metadata :: metadata_bag
  stored_createdAt :: "json option"
  stored_updatedAt :: "json option"

text \<open>
  The value of one member of the parsed document: a session object, or a value that is not
  an object (\<open>null\<close>, a number, a string, a boolean).
\<close>

datatype member =
    NotAnObject
  | SessionObject stored_session

text \<open>
  The file \<open>.data/mcp-sessions.json\<close>: absent (\<open>fs.existsSync\<close> is false), present but
  \<open>fs.readFileSync\<close> throws, present but \<open>JSON.parse\<close> throws, or a JSON text that parses
  to an object with the given members, in the order of the text. A text whose value is
  \<open>null\<close> makes \<open>Object.entries\<close> throw and behaves like \<open>Malformed\<close>.
\<close>

datatype disk =
    Missing
  | Unreadable
  | Malformed
  | Document "(string \<times> member) list"

text \<open>
  The outcome of \<open>fs.writeFileSync\<close>: the document is written, or the call throws and leaves
  the file in the given condition.
\<close>

datatype write_outcome =
    Written
  | WriteFailed disk

text \<open>
  The two functions of the JavaScript \<open>Date\<close> object that the module calls:
  \<open>Date.prototype.toISOString\<close> on a valid date (also behind \<open>toJSON\<close>) and the constructor
  \<open>new Date(value)\<close> on a parsed JSON value (\<open>None\<close> is \<open>undefined\<close>). They belong to the
  platform and are parameters of the model; \<open>ecmascript\<close> below is the platform of the
  language standard.
\<close>

record platform =
  toISOString :: "int \<Rightarrow> string"
  newDate :: "json option \<Rightarrow> date"

text \<open>
  The module state: the \<open>Map\<close> object \<open>sessionsCache\<close>, whose entries are kept in insertion
  order with one entry per key, and the sessions file.
\<close>

record state =
  sessionsMap :: "(string, MCPSession) alist"
  disk :: disk

text \<open>\<open>sessionsCache.get(id)\<close>.\<close>

definition sessionsCache :: "state \<Rightarrow> string \<rightharpoonup> MCPSession" where
  "sessionsCache st = DAList.lookup (sessionsMap st)"

text \<open>\<open>useRuntimeConfig()\<close>, as far as the handler reads it.\<close>

record runtimeConfig =
  openaiApiKey :: "string option"

text \<open>
  What one request takes from its surroundings: the clock (\<open>new Date()\<close>), the two strings
  \<open>Math.random().toString(36).substring(2, 15)\<close> of \<open>generateId\<close>, and the outcome of the
  write in \<open>saveSessions\<close>. No operation saves more than once.
\<close>

record env =
  now :: int
  random1 :: string
  random2 :: string
  write_result :: write_outcome

text \<open>
  The request body after \<open>readBody\<close>. A property that is absent is \<open>None\<close>;
  \<open>body_data_conversationId\<close> is \<open>body.data?.conversationId\<close>.
\<close>

record body =
  body_action :: "string option"
  body_conversationId :: "string option"
  body_metadata :: "metadata_bag option"
  body_messages :: "message list option"
  body_data_conversationId :: "string option"

text \<open>
  Errors: an error made by \<open>createError\<close> with its \<open>statusCode\<close> and \<open>message\<close>, the
  \<open>TypeError\<close> of reading a property of \<open>undefined\<close>, or the \<open>RangeError\<close> of \<open>toISOString\<close>
  on an Invalid Date.
\<close>

datatype error =
    H3Error nat string
  | TypeError
  | RangeError

text \<open>
  Values the handler returns.
  \<^item> \<open>Created conversationId metadata createdAt messageCount\<close>, from \<open>createSession\<close>;
  \<^item> \<open>SessionInfo conversationId metadata createdAt updatedAt messageCount\<close>, from
    \<open>getSessionInfo\<close>;
  \<^item> \<open>Deleted success message\<close>, from \<open>deleteSession\<close>;
  \<^item> \<open>DataStream submitted session\<close>, the response of \<open>streamText\<close>: the messages handed to
    the model provider, and the id of the session that the \<open>onFinish\<close> callback holds
    (\<open>None\<close> for a direct chat, whose callback only logs).
\<close>

datatype response =
    Created string metadata_bag string nat
  | SessionInfo string metadata_bag string string nat
  | Deleted bool string
  | DataStream "message list" "string option"


section \<open>Dates of the language standard\<close>

text \<open>
  The day arithmetic of ECMAScript (section "Date Objects"), on day numbers: \<open>DayFromYear\<close>
  is the day number of the first day of a year, \<open>YearFromDay d\<close> computes the largest year
  \<open>y\<close> with \<open>DayFromYear y \<le> d\<close> from an estimate that is off by one year at most,
  \<open>InLeapYear\<close> is 1 in a leap year, \<open>MonthFromDay\<close> is the month (from 0) of a day within
  its year and \<open>MonthStart\<close> the day within the year on which a month starts.
\<close>

definition msPerDay :: int where
  "msPerDay = 86400000"

definition DayFromYear :: "int \<Rightarrow> int" where
  "DayFromYear y =
     365 * (y - 1970) + (y - 1969) div 4 - (y - 1901) div 100 + (y - 1601) div 400"

definition YearFromDay :: "int \<Rightarrow> int" where
  "YearFromDay d =
     (let y = 1970 + (400 * d) div 146097 in
      if DayFromYear (y + 1) \<le> d then y + 1
      else if DayFromYear y \<le> d then y
      else y - 1)"

definition InLeapYear :: "int \<Rightarrow> int" where
  "InLeapYear y =
     (if y mod 4 \<noteq> 0 then 0 else if y mod 100 \<noteq> 0 then 1 else if y mod 400 \<noteq> 0 then 0 else 1)"

definition MonthFromDay :: "int \<Rightarrow> int \<Rightarrow> int" where
  "MonthFromDay n L =
     (if n < 31 then 0 else if n < 59 + L then 1 else if n < 90 + L then 2
      else if n < 120 + L then 3 else if n < 151 + L then 4 else if n < 181 + L then 5
      else if n < 212 + L then 6 else if n < 243 + L then 7 else if n < 273 + L then 8
      else if n < 304 + L then 9 else if n < 334 + L then 10 else 11)"

definition MonthStart :: "int \<Rightarrow> int \<Rightarrow> int" where
  "MonthStart m L =
     (if m = 0 then 0 else if m = 1 then 31 else if m = 2 then 59 + L
      else if m = 3 then 90 + L else if m = 4 then 120 + L else if m = 5 then 151 + L
      else if m = 6 then 181 + L else if m = 7 then 212 + L else if m = 8 then 243 + L
      else if m = 9 then 273 + L else if m = 10 then 304 + L else if m = 11 then 334 + L
      else 365 + L)"

text \<open>Decimal digits: \<open>pad k n\<close> writes \<open>n\<close> with \<open>k\<close> digits, \<open>dec\<close> reads digits.\<close>

definition digit_char :: "nat \<Rightarrow> char" where
  "digit_char n = char_of (48 + n)"

definition digit_val :: "char \<Rightarrow> nat" where
  "digit_val c = of_char c - 48"

definition is_digit :: "char \<Rightarrow> bool" where
  "is_digit c = (48 \<le> (of_char c :: nat) \<and> (of_char c :: nat) \<le> 57)"

fun pad :: "nat \<Rightarrow> nat \<Rightarrow> string" where
  "pad 0 n = []"
| "pad (Suc k) n = pad k (n div 10) @ [digit_char (n mod 10)]"

definition dec :: "string \<Rightarrow> nat" where
  "dec s = foldl (\<lambda>a c. 10 * a + digit_val c) 0 s"

text \<open>
  \<open>Date.prototype.toISOString\<close>: \<open>YYYY-MM-DDTHH:mm:ss.sssZ\<close>, with the year written as a
  sign and six digits when it is outside 0 to 9999.
\<close>

definition year_string :: "int \<Rightarrow> string" where
  "year_string y =
     (if 0 \<le> y \<and> y \<le> 9999 then pad 4 (nat y)
      else (if y < 0 then ''-'' else ''+'') @ pad 6 (nat \<bar>y\<bar>))"

definition time_string :: "nat \<Rightarrow> nat \<Rightarrow> nat \<Rightarrow> nat \<Rightarrow> nat \<Rightarrow> nat \<Rightarrow> string" where
  "time_string mo d h mi sec ms =
     ''-'' @ pad 2 mo @ ''-'' @ pad 2 d @ ''T'' @ pad 2 h @ '':'' @ pad 2 mi @ '':'' @ pad 2 sec
       @ ''.'' @ pad 3 ms @ ''Z''"

definition iso_string :: "int \<Rightarrow> string" where
  "iso_string t =
     (let day = t div msPerDay;
          tod = t mod msPerDay;
          y = YearFromDay day;
          L = InLeapYear y;
          n = day - DayFromYear y;
          m = MonthFromDay n L
      in year_string y @
         time_string (nat (m + 1)) (nat (n - MonthStart m L + 1))
           (nat (tod div 3600000)) (nat (tod div 60000 mod 60)) (nat (tod div 1000 mod 60))
           (nat (tod mod 1000)))"

text \<open>
  Reading a string of exactly that form, with every element in its range and the instant
  in the range of a \<open>Date\<close>. Every other string gives \<open>None\<close> here.
\<close>

definition parse_year :: "string \<Rightarrow> (int \<times> string) option" where
  "parse_year s =
     (case s of
        [] \<Rightarrow> None
      | c # cs \<Rightarrow>
          if c = CHR ''+'' then
            (if 6 \<le> length cs \<and> list_all is_digit (take 6 cs)
             then Some (int (dec (take 6 cs)), drop 6 cs) else None)
          else if c = CHR ''-'' then
            (if 6 \<le> length cs \<and> list_all is_digit (take 6 cs) \<and> dec (take 6 cs) \<noteq> 0
             then Some (- int (dec (take 6 cs)), drop 6 cs) else None)
          else
            (if 4 \<le> length s \<and> list_all is_digit (take 4 s)
             then Some (int (dec (take 4 s)), drop 4 s) else None))"

definition parse_time :: "string \<Rightarrow> (nat \<times> nat \<times> nat \<times> nat \<times> nat \<times> nat) option" where
  "parse_time s =
     (case s of
        [c0, m1, m2, c3, d1, d2, c6, h1, h2, c9, n1, n2, c12, s1, s2, c15, f1, f2, f3, c19] \<Rightarrow>
          if c0 = CHR ''-'' \<and> c3 = CHR ''-'' \<and> c6 = CHR ''T'' \<and> c9 = CHR '':'' \<and> c12 = CHR '':''
             \<and> c15 = CHR ''.'' \<and> c19 = CHR ''Z''
             \<and> list_all is_digit [m1, m2, d1, d2, h1, h2, n1, n2, s1, s2, f1, f2, f3]
          then Some (dec [m1, m2], dec [d1, d2], dec [h1, h2], dec [n1, n2], dec [s1, s2],
                     dec [f1, f2, f3])
          else None
      | _ \<Rightarrow> None)"

definition parse_iso :: "string \<Rightarrow> int option" where
  "parse_iso s =
     (case parse_year s of
        None \<Rightarrow> None
      | Some (y, rest) \<Rightarrow>
          (case parse_time rest of
             None \<Rightarrow> None
           | Some (mo, d, h, mi, sec, ms) \<Rightarrow>
               (let L = InLeapYear y;
                    m = int mo - 1;
                    t = (DayFromYear y + MonthStart m L + int d - 1) * msPerDay
                          + int h * 3600000 + int mi * 60000 + int sec * 1000 + int ms
                in if 1 \<le> mo \<and> mo \<le> 12 \<and> 1 \<le> d
                      \<and> int d \<le> MonthStart (m + 1) L - MonthStart m L
                      \<and> h \<le> 23 \<and> mi \<le> 59 \<and> sec \<le> 59
                      \<and> - 8640000000000000 \<le> t \<and> t \<le> 8640000000000000
                   then Some t else None)))"

text \<open>\<open>TimeClip\<close>: a number outside the range of a \<open>Date\<close> gives the Invalid Date.\<close>

definition TimeClip :: "int \<Rightarrow> date" where
  "TimeClip n =
     (if - 8640000000000000 \<le> n \<and> n \<le> 8640000000000000 then Instant n else InvalidDate)"

text \<open>
  The platform of the language standard. \<open>new Date(value)\<close>: \<open>undefined\<close> gives the Invalid
  Date, \<open>null\<close> and the booleans go through \<open>ToNumber\<close>, a number is clipped, a string of
  the form that \<open>toISOString\<close> writes is read as above. What the standard leaves to the
  implementation, or what ends there (any other string, an array, an object), is the
  parameter \<open>other\<close>.
\<close>

definition ecmascript :: "(json \<Rightarrow> date) \<Rightarrow> platform" where
  "ecmascript other =
     \<lparr> toISOString = iso_string,
       newDate = (\<lambda>v. case v of
                         None \<Rightarrow> InvalidDate
                       | Some JNull \<Rightarrow> Instant 0
                       | Some (JBool b) \<Rightarrow> Instant (if b then 1 else 0)
                       | Some (JNum n) \<Rightarrow> TimeClip n
                       | Some (JStr s) \<Rightarrow>
                           (case parse_iso s of
                              None \<Rightarrow> other (JStr s)
                            | Some t \<Rightarrow> Instant t)
                       | Some (JArr a) \<Rightarrow> other (JArr a)
                       | Some (JObj ob) \<Rightarrow> other (JObj ob)) \<rparr>"


section \<open>Plain objects\<close>

text \<open>
  A plain object is the list of its own properties in creation order; \<open>AList.update\<close> is
  the assignment \<open>obj[key] = value\<close> for a key other than \<open>__proto__\<close>: an existing property
  keeps its place, a new one goes last. \<open>Object.entries\<close> and \<open>JSON.stringify\<close> enumerate
  the keys that are array indices first, in ascending order, then the other keys in
  creation order. An array index is the canonical decimal string of a number below
  \<open>2^32 - 1\<close>; \<open>index_val\<close> is the number that a string of digits denotes.
\<close>

definition index_val :: "string \<Rightarrow> int" where
  "index_val s = foldl (\<lambda>a c. 10 * a + int (digit_val c)) 0 s"

definition array_index :: "string \<Rightarrow> int option" where
  "array_index s =
     (if s \<noteq> [] \<and> list_all is_digit s \<and> (s = ''0'' \<or> hd s \<noteq> CHR ''0'')
         \<and> index_val s \<le> 4294967294
      then Some (index_val s) else None)"

definition index_of :: "string \<times> 'a \<Rightarrow> int" where
  "index_of p = (case array_index (fst p) of None \<Rightarrow> 0 | Some n \<Rightarrow> n)"

definition own_entries :: "(string \<times> 'a) list \<Rightarrow> (string \<times> 'a) list" where
  "own_entries obj =
     sort_key index_of (filter (\<lambda>p. array_index (fst p) \<noteq> None) obj)
       @ filter (\<lambda>p. array_index (fst p) = None) obj"


section \<open>Session store\<close>

text \<open>JavaScript truthiness of a value that is a string or \<open>undefined\<close>.\<close>

definition truthy :: "string option \<Rightarrow> bool" where
  "truthy v = (case v of None \<Rightarrow> False | Some s \<Rightarrow> s \<noteq> [])"

text \<open>\<open>Date.prototype.toJSON\<close>: the ISO string, or \<open>null\<close> for the Invalid Date.\<close>

definition toJSON :: "platform \<Rightarrow> date \<Rightarrow> json" where
  "toJSON pf d = (case d of Instant t \<Rightarrow> JStr (toISOString pf t) | InvalidDate \<Rightarrow> JNull)"

text \<open>\<open>JSON.stringify\<close> on one session: every \<open>Date\<close> goes through \<open>toJSON\<close>.\<close>

definition stringify_session :: "platform \<Rightarrow> MCPSession \<Rightarrow> stored_session" where
  "stringify_session pf session =
     \<lparr> stored_conversationId = conversationId session,
       stored_messages = messages session,
       stored_metadata = metadata session,
       stored_createdAt = Some (toJSON pf (createdAt session)),
       stored_updatedAt = Some (toJSON pf (updatedAt session)) \<rparr>"




text \<open>
  The object \<open>sessionsData\<close> that \<open>saveSessions\<close> fills from the entries of the cache. It
  starts as \<open>{}\<close>, so the assignment \<open>sessionsData["__proto__"] = session\<close> sets the
  prototype of the object and makes no property.
\<close>

definition sessionsData :: "(string, MCPSession) alist \<Rightarrow> (string \<times> MCPSession) list" where
  "sessionsData cache =
     fold (\<lambda>(id, session) obj. if id = ''__proto__'' then obj else AList.update id session obj)
       (DAList.impl_of cache) []"

text \<open>The members that \<open>JSON.stringify(sessionsData, null, 2)\<close> writes.\<close>

definition JSON_stringify :: "platform \<Rightarrow> (string \<times> MCPSession) list \<Rightarrow> (string \<times> member) list" where
  "JSON_stringify pf obj =
     map (\<lambda>(id, session). (id, SessionObject (stringify_session pf session))) (own_entries obj)"

text \<open>
  \<open>saveSessions\<close>: the whole cache is written over the file; a write error is caught and
  logged.
\<close>

definition saveSessions :: "platform \<Rightarrow> write_outcome \<Rightarrow> state \<Rightarrow> state" where
  "saveSessions pf w st =
     (case w of
        Written \<Rightarrow> st\<lparr>disk := Document (JSON_stringify pf (sessionsData (sessionsMap st)))\<rparr>
      | WriteFailed d \<Rightarrow> st\<lparr>disk := d\<rparr>)"



section \<open>Lifecycle functions\<close>

definition generateId :: "string \<Rightarrow> string \<Rightarrow> string" where
  "generateId r1 r2 = ''mcp-'' @ r1 @ r2"

definition createSession :: "platform \<Rightarrow> env \<Rightarrow> metadata_bag \<Rightarrow> state \<Rightarrow> response \<times> state" where
  "createSession pf e md st =
     (let cid = generateId (random1 e) (random2 e);
          session = \<lparr> conversationId = cid, messages = [], metadata = md,
                      createdAt = Instant (now e), updatedAt = Instant (now e) \<rparr>;
          st1 = st\<lparr>sessionsMap := DAList.update cid session (sessionsMap st)\<rparr>;
          st2 = saveSessions pf (write_result e) st1
      in (Created cid md (toISOString pf (now e)) 0, st2))"

text \<open>
  \<open>getSessionInfo\<close>. \<open>toISOString\<close> on an Invalid Date throws a \<open>RangeError\<close>.
\<close>

definition getSessionInfo :: "platform \<Rightarrow> string \<Rightarrow> state \<Rightarrow> error + response" where
  "getSessionInfo pf cid st =
     (case sessionsCache st cid of
        None \<Rightarrow> Inl (H3Error 404 (''Session not found: '' @ cid))
      | Some session \<Rightarrow>
          (case createdAt session of
             InvalidDate \<Rightarrow> Inl RangeError
           | Instant created \<Rightarrow>
               (case updatedAt session of
                  InvalidDate \<Rightarrow> Inl RangeError
                | Instant updated \<Rightarrow>
                    Inr (SessionInfo (conversationId session) (metadata session)
                           (toISOString pf created) (toISOString pf updated)
                           (length (messages session))))))"

definition deleteSession :: "platform \<Rightarrow> env \<Rightarrow> string \<Rightarrow> state \<Rightarrow> response \<times> state" where
  "deleteSession pf e cid st =
     (let exists = (sessionsCache st cid \<noteq> None);
          st1 = st\<lparr>sessionsMap := DAList.delete cid (sessionsMap st)\<rparr>;
          st2 = (if exists then saveSessions pf (write_result e) st1 else st1)
      in (Deleted exists (if exists then ''Session deleted'' else ''Session not found''), st2))"

section \<open>Chat\<close>

text \<open>\<open>handleDirectChat\<close>: \<open>messages || []\<close> goes to the provider; nothing is stored.\<close>

definition handleDirectChat :: "message list option \<Rightarrow> response" where
  "handleDirectChat ms = DataStream (case ms of None \<Rightarrow> [] | Some l \<Rightarrow> l) None"

text \<open>
  \<open>handleSessionChat\<close>: the history of the session, message by message, goes to the
  provider, and the callback keeps the session.
\<close>

definition handleSessionChat :: "string \<Rightarrow> MCPSession \<Rightarrow> response" where
  "handleSessionChat cid session =
     DataStream
       (map (\<lambda>msg. \<lparr> role = role msg, content = content msg, name = name msg \<rparr>)
          (messages session))
       (Some cid)"

text \<open>
  The \<open>onFinish\<close> callback of \<open>handleSessionChat\<close>, run by the provider with the full reply.
  It pushes onto the session object that the request found under \<open>cid\<close>, then saves. While
  the session has not been deleted, that object is the one the cache holds under \<open>cid\<close>;
  after a delete the push reaches an object that the cache no longer holds.
\<close>

definition onFinish :: "platform \<Rightarrow> write_outcome \<Rightarrow> string \<Rightarrow> string \<Rightarrow> state \<Rightarrow> state" where
  "onFinish pf w cid reply st =
     saveSessions pf w
       (case sessionsCache st cid of
          None \<Rightarrow> st
        | Some session \<Rightarrow>
            st\<lparr>sessionsMap := DAList.update cid
                 (session\<lparr>messages := messages session @
                            [\<lparr> role = ''assistant'', content = reply, name = None \<rparr>]\<rparr>)
                 (sessionsMap st)\<rparr>)"

text \<open>The \<open>chat\<close> and \<open>default\<close> branch of the switch.\<close>

definition chat :: "platform \<Rightarrow> env \<Rightarrow> body \<Rightarrow> state \<Rightarrow> (error + response) \<times> state" where
  "chat pf e b st =
     (case body_data_conversationId b of
        None \<Rightarrow> (Inr (handleDirectChat (body_messages b)), st)
      | Some cid \<Rightarrow>
          if cid = [] then (Inr (handleDirectChat (body_messages b)), st)
          else
            (case sessionsCache st cid of
               None \<Rightarrow> (Inl (H3Error 404 (''Session not found: '' @ cid)), st)
             | Some session \<Rightarrow>
                (case body_messages b of
                   None \<Rightarrow> (Inl TypeError, st)
                 | Some ms \<Rightarrow>
                    if ms = [] \<or> role (last ms) \<noteq> ''user''
                    then (Inl (H3Error 400 ''Invalid message format''), st)
                    else
                      (let session1 = session\<lparr>messages := messages session @
                                        [\<lparr> role = ''user'', content = content (last ms),
                                           name = None \<rparr>]\<rparr>;
                           session2 = session1\<lparr>updatedAt := Instant (now e)\<rparr>;
                           st1 = st\<lparr>sessionsMap := DAList.update cid session2 (sessionsMap st)\<rparr>;
                           st2 = saveSessions pf (write_result e) st1
                       in (Inr (handleSessionChat cid session2), st2)))))"

section \<open>The event handler\<close>

text \<open>The \<open>switch\<close> inside the \<open>try\<close> block: \<open>body.action || "chat"\<close> selects the branch.\<close>

definition dispatch :: "platform \<Rightarrow> env \<Rightarrow> body \<Rightarrow> state \<Rightarrow> (error + response) \<times> state" where
  "dispatch pf e b st =
     (let action = (case body_action b of
                      None \<Rightarrow> ''chat''
                    | Some a \<Rightarrow> if a = [] then ''chat'' else a) in
      if action = ''create'' then
        (let (r, st1) = createSession pf e (case body_metadata b of None \<Rightarrow> [] | Some md \<Rightarrow> md) st
         in (Inr r, st1))
      else if action = ''get'' then
        (case body_conversationId b of
           None \<Rightarrow> (Inl (H3Error 400 ''Missing conversationId for get action''), st)
         | Some cid \<Rightarrow>
            if cid = [] then (Inl (H3Error 400 ''Missing conversationId for get action''), st)
            else (getSessionInfo pf cid st, st))
      else if action = ''delete'' then
        (case body_conversationId b of
           None \<Rightarrow> (Inl (H3Error 400 ''Missing conversationId for delete action''), st)
         | Some cid \<Rightarrow>
            if cid = [] then (Inl (H3Error 400 ''Missing conversationId for delete action''), st)
            else (let (r, st1) = deleteSession pf e cid st in (Inr r, st1)))
      else chat pf e b st)"

text \<open>
  \<open>defineEventHandler\<close>: without an API key the request fails before the \<open>try\<close> block; any
  error thrown inside the \<open>try\<close> block is caught and replaced by a 500 error.
\<close>

definition handler :: "platform \<Rightarrow> runtimeConfig \<Rightarrow> env \<Rightarrow> body \<Rightarrow> state \<Rightarrow> (error + response) \<times> state" where
  "handler pf cfg e b st =
     (if \<not> truthy (openaiApiKey cfg) then (Inl (H3Error 500 ''Missing OpenAI API key''), st)
      else
        (case dispatch pf e b st of
           (Inl err, st1) \<Rightarrow> (Inl (H3Error 500 ''Failed to process request''), st1)
         | (Inr r, st1) \<Rightarrow> (Inr r, st1)))"

section \<open>Fixtures for concrete evaluation\<close>

text \<open>
  The platform of the language standard on an engine whose \<open>Date\<close> rejects every string
  that is not of the form \<open>toISOString\<close> writes.
\<close>

definition sample_platform :: platform where
  "sample_platform = ecmascript (\<lambda>v. InvalidDate)"

definition configured :: runtimeConfig where
  "configured = \<lparr> openaiApiKey = Some ''sk-test'' \<rparr>"

definition sample_env :: env where
  "sample_env = \<lparr> now = 0, random1 = ''k3j9x0f2a1b'', random2 = ''q8w7e6r5t4y'',
                  write_result = Written \<rparr>"

text \<open>
  A session with one user turn, made and last touched one second after the epoch, and a
  store that holds it.
\<close>

definition hello_session :: MCPSession where
  "hello_session =
     \<lparr> conversationId = ''mcp-a'',
       messages = [\<lparr> role = ''user'', content = ''hello'', name = None \<rparr>],
       metadata = [], createdAt = Instant 1000, updatedAt = Instant 1000 \<rparr>"

definition hello_store :: state where
  "hello_store =
     \<lparr> sessionsMap = DAList.update ''mcp-a'' hello_session DAList.empty, disk = Missing \<rparr>"

definition empty_store :: state where
  "empty_store = \<lparr> sessionsMap = DAList.empty, disk = Missing \<rparr>"




text \<open>A request body with the given action and top-level \<open>conversationId\<close>, and nothing else.\<close>

definition action_body :: "string \<Rightarrow> string option \<Rightarrow> body" where
  "action_body a cid =
     \<lparr> body_action = Some a, body_conversationId = cid, body_metadata = None,
       body_messages = None, body_data_conversationId = None \<rparr>"

text \<open>A chat request for a session: \<open>{messages, data: {conversationId}}\<close>.\<close>

definition chat_body :: "string \<Rightarrow> message list \<Rightarrow> body" where
  "chat_body cid ms =
     \<lparr> body_action = None, body_conversationId = None, body_metadata = None,
       body_messages = Some ms, body_data_conversationId = Some cid \<rparr>"

section \<open>Facts about the dates\<close>















lemma length_pad [simp]: "length (pad k n) = k"
  by (induction k arbitrary: n) simp_all



















section \<open>Facts about the store\<close>

lemma sessionsCache_update:
  "sessionsCache (st\<lparr>sessionsMap := DAList.update k v (sessionsMap st)\<rparr>) = (sessionsCache st)(k \<mapsto> v)"
  by (rule ext) (simp add: sessionsCache_def DAList.lookup_update)

lemma sessionsCache_delete:
  "sessionsCache (st\<lparr>sessionsMap := DAList.delete k (sessionsMap st)\<rparr>) = (sessionsCache st)(k := None)"
  by (simp add: sessionsCache_def)

lemma sessionsCache_disk [simp]: "sessionsCache (st\<lparr>disk := d\<rparr>) = sessionsCache st"
  by (simp add: sessionsCache_def)

lemma saveSessions_cache: "sessionsCache (saveSessions pf w st) = sessionsCache st"
  by (simp add: saveSessions_def split: write_outcome.splits)

lemma saveSessions_map: "sessionsMap (saveSessions pf w st) = sessionsMap st"
  by (simp add: saveSessions_def split: write_outcome.splits)


lemma delete_absent:
  "DAList.lookup al k = None \<Longrightarrow> DAList.delete k al = al"
  by transfer (simp add: map_of_eq_None_iff)

lemma generateId_nonempty: "generateId r1 r2 \<noteq> []"
  by (simp add: generateId_def)

lemma createSession_result:
  "fst (createSession pf e md st) =
     Created (generateId (random1 e) (random2 e)) md (toISOString pf (now e)) 0"
  by (simp add: createSession_def Let_def)

lemma createSession_cache:
  "sessionsCache (snd (createSession pf e md st)) =
     (sessionsCache st)(generateId (random1 e) (random2 e) \<mapsto>
        \<lparr> conversationId = generateId (random1 e) (random2 e), messages = [], metadata = md,
          createdAt = Instant (now e), updatedAt = Instant (now e) \<rparr>)"
  by (simp add: createSession_def Let_def saveSessions_cache sessionsCache_update)

lemma deleteSession_result:
  "fst (deleteSession pf e cid st) =
     Deleted (sessionsCache st cid \<noteq> None)
       (if sessionsCache st cid \<noteq> None then ''Session deleted'' else ''Session not found'')"
  by (simp add: deleteSession_def Let_def)

lemma deleteSession_cache:
  "sessionsCache (snd (deleteSession pf e cid st)) = (sessionsCache st)(cid := None)"
  by (simp add: deleteSession_def Let_def saveSessions_cache sessionsCache_delete)

lemma deleteSession_absent:
  "sessionsCache st cid = None \<Longrightarrow>
     deleteSession pf e cid st = (Deleted False ''Session not found'', st)"
  by (simp add: deleteSession_def Let_def sessionsCache_def delete_absent)

lemma handler_delete:
  assumes "truthy (openaiApiKey cfg)" and "cid \<noteq> []"
  shows "handler pf cfg e
           \<lparr> body_action = Some ''delete'', body_conversationId = Some cid, body_metadata = md,
             body_messages = ms, body_data_conversationId = dc \<rparr> st
         = (Inr (fst (deleteSession pf e cid st)), snd (deleteSession pf e cid st))"
  using assms by (simp add: handler_def dispatch_def case_prod_unfold Let_def)

lemma hello_store_cache: "sessionsCache hello_store = [''mcp-a'' \<mapsto> hello_session]"
  by (rule ext) (simp add: hello_store_def sessionsCache_def DAList.lookup_update)

lemma empty_store_cache: "sessionsCache empty_store = Map.empty"
  by (rule ext) (simp add: empty_store_def sessionsCache_def)

lemma epoch_string: "iso_string 0 = ''1970-01-01T00:00:00.000Z''"
  by code_simp

section \<open>Facts about plain objects and the sessions file\<close>






lemma set_own_entries [simp]: "set (own_entries xs) = set xs"
  by (auto simp: own_entries_def)
















section \<open>Facts about the dispatch and the chat branch\<close>

text \<open>An action that names no \<open>case\<close> of the switch runs the \<open>default\<close> branch.\<close>

lemma unknown_action_is_chat:
  assumes "a \<noteq> ''create''" and "a \<noteq> ''get''" and "a \<noteq> ''delete''" and "a \<noteq> []"
  shows "dispatch pf e (b\<lparr>body_action := Some a\<rparr>) st = chat pf e (b\<lparr>body_action := Some a\<rparr>) st"
  using assms by (simp add: dispatch_def)

text \<open>Every error raised inside the \<open>try\<close> block leaves the handler as the same 500.\<close>

lemma handler_error_is_500:
  assumes "fst (handler pf cfg e b st) = Inl err"
  shows "err = H3Error 500 ''Missing OpenAI API key'' \<or> err = H3Error 500 ''Failed to process request''"
  using assms by (auto simp: handler_def split: if_splits prod.splits sum.splits)

lemma formatted_messages: "map (\<lambda>msg. \<lparr> role = role msg, content = content msg, name = name msg \<rparr>) ms = ms"
  by (induction ms) simp_all

text \<open>
  The user turn of a session chat: the newest inbound message is appended, \<open>updatedAt\<close> is set
  to the clock, the store is saved, and the whole history goes to the provider in order.
\<close>

lemma chat_user_turn:
  assumes "sessionsCache st cid = Some session" and "cid \<noteq> []"
    and "ms \<noteq> []" and "role (last ms) = ''user''"
  shows "chat pf e (chat_body cid ms) st =
           (Inr (DataStream
                   (messages session @ [\<lparr> role = ''user'', content = content (last ms), name = None \<rparr>])
                   (Some cid)),
            saveSessions pf (write_result e)
              (st\<lparr>sessionsMap := DAList.update cid
                    (session\<lparr>messages := messages session @
                               [\<lparr> role = ''user'', content = content (last ms), name = None \<rparr>],
                             updatedAt := Instant (now e)\<rparr>)
                    (sessionsMap st)\<rparr>))"
  using assms
  by (simp add: chat_def chat_body_def handleSessionChat_def formatted_messages Let_def)

text \<open>
  The same at the handler. By \<open>saveSessions_written\<close> the file then holds the appended
  message when the write succeeds, before the response is made.
\<close>

lemma handler_chat_user_turn:
  assumes "truthy (openaiApiKey cfg)"
    and "sessionsCache st cid = Some session" and "cid \<noteq> []"
    and "ms \<noteq> []" and "role (last ms) = ''user''"
  shows "handler pf cfg e (chat_body cid ms) st =
           (Inr (DataStream
                   (messages session @ [\<lparr> role = ''user'', content = content (last ms), name = None \<rparr>])
                   (Some cid)),
            saveSessions pf (write_result e)
              (st\<lparr>sessionsMap := DAList.update cid
                    (session\<lparr>messages := messages session @
                               [\<lparr> role = ''user'', content = content (last ms), name = None \<rparr>],
                             updatedAt := Instant (now e)\<rparr>)
                    (sessionsMap st)\<rparr>))"
proof -
  have "body_action (chat_body cid ms) = None"
    by (simp add: chat_body_def)
  then show ?thesis
    using assms(1) chat_user_turn [OF assms(2-5), of pf e]
    by (simp add: handler_def dispatch_def)
qed

text \<open>A newest message that is missing or not from the user is refused; the state stays.\<close>

lemma chat_refuses_newest:
  assumes "sessionsCache st cid = Some session" and "cid \<noteq> []"
    and "ms = [] \<or> role (last ms) \<noteq> ''user''"
  shows "chat pf e (chat_body cid ms) st = (Inl (H3Error 400 ''Invalid message format''), st)"
  using assms by (auto simp: chat_def chat_body_def)

text \<open>The callback appends the reply and touches no other field of the session.\<close>

lemma onFinish_session:
  assumes "sessionsCache st cid = Some session"
  shows "sessionsCache (onFinish pf w cid reply st) cid =
           Some (session\<lparr>messages := messages session @
                           [\<lparr> role = ''assistant'', content = reply, name = None \<rparr>]\<rparr>)"
  using assms by (simp add: onFinish_def saveSessions_cache sessionsCache_update)

section \<open>The claims\<close>

text \<open>
  C1. A request with action "getMessages" and the id of a stored session should return the
  ordered messages of the session, and 404 for an id that is not stored. The switch has no
  such case: the request runs the default chat branch, finds no \<open>data.conversationId\<close>, and
  is answered by a direct chat on an empty message list, for a stored id and for an unknown
  id alike, with the store untouched.
\<close>

theorem getMessages_is_answered_as_chat:
  "handler pf configured e (action_body ''getMessages'' (Some ''mcp-a'')) hello_store
     = (Inr (DataStream [] None), hello_store)
   \<and> handler pf configured e (action_body ''getMessages'' (Some ''mcp-a'')) empty_store
     = (Inr (DataStream [] None), empty_store)"
  by (simp add: handler_def dispatch_def chat_def handleDirectChat_def configured_def
      action_body_def truthy_def)

text \<open>
  C2. A request with action "listSessions" should return one summary per stored session.
  The switch has no such case either: with one session in the store the request is
  answered by a direct chat on an empty message list, and no summary is returned.
\<close>

theorem listSessions_is_answered_as_chat:
  "handler pf configured e (action_body ''listSessions'' None) hello_store
     = (Inr (DataStream [] None), hello_store)"
  by (simp add: handler_def dispatch_def chat_def handleDirectChat_def configured_def
      action_body_def truthy_def)

text \<open>
  C3. A "get" for an id that is not in the store should fail with a 404 whose message holds
  the id. \<open>getSessionInfo\<close> throws exactly that error, but the \<open>catch\<close> of the handler
  replaces it: the caller receives a 500 with the message "Failed to process request".
\<close>

theorem get_unknown_id_is_500:
  "handler pf configured e (action_body ''get'' (Some ''mcp-never-created'')) empty_store
     = (Inl (H3Error 500 ''Failed to process request''), empty_store)
   \<and> getSessionInfo pf ''mcp-never-created'' empty_store
     = Inl (H3Error 404 ''Session not found: mcp-never-created'')"
  by (simp add: handler_def dispatch_def getSessionInfo_def configured_def
      action_body_def truthy_def empty_store_cache)

text \<open>
  C4. A session chat whose newest inbound message is missing or not from the user should
  fail with a 400 and leave the session unchanged. The chat branch throws that 400 and
  leaves the store unchanged, but the \<open>catch\<close> of the handler replaces the error: the
  caller receives a 500, for a newest message from the assistant and for an empty list.
\<close>

theorem chat_invalid_message_is_500:
  "handler pf configured e
       (chat_body ''mcp-a'' [\<lparr> role = ''assistant'', content = ''hi'', name = None \<rparr>]) hello_store
     = (Inl (H3Error 500 ''Failed to process request''), hello_store)
   \<and> handler pf configured e (chat_body ''mcp-a'' []) hello_store
     = (Inl (H3Error 500 ''Failed to process request''), hello_store)
   \<and> chat pf e
       (chat_body ''mcp-a'' [\<lparr> role = ''assistant'', content = ''hi'', name = None \<rparr>]) hello_store
     = (Inl (H3Error 400 ''Invalid message format''), hello_store)"
  by (simp add: handler_def dispatch_def chat_def configured_def
      chat_body_def truthy_def hello_store_cache)

text \<open>
  C5. Every append to a session should refresh \<open>updatedAt\<close>. The user turn does; the
  \<open>onFinish\<close> callback does not: it reads no clock, and after it has appended the reply to
  a session last touched at instant 1000 the session still says 1000, whatever the time of
  the reply and whatever the outcome of the save.
\<close>

theorem onFinish_keeps_updatedAt:
  "sessionsCache (onFinish pf w ''mcp-a'' ''hi there'' hello_store) ''mcp-a''
     = Some \<lparr> conversationId = ''mcp-a'',
              messages = [\<lparr> role = ''user'', content = ''hello'', name = None \<rparr>,
                          \<lparr> role = ''assistant'', content = ''hi there'', name = None \<rparr>],
              metadata = [], createdAt = Instant 1000, updatedAt = Instant 1000 \<rparr>"
  by (simp add: onFinish_def saveSessions_cache hello_store_cache sessionsCache_update
      hello_session_def)




text \<open>
  C7. Deleting a stored session twice: the first call reports success and removes the
  session and nothing else, the second call reports "Session not found" with
  \<open>success: false\<close> and changes nothing, and neither call throws. This holds of
  \<open>deleteSession\<close>, and of the handler when the API key is configured and the id is not the
  empty string.
\<close>

theorem delete_twice:
  assumes "sessionsCache st cid = Some session"
  shows "fst (deleteSession pf e1 cid st) = Deleted True ''Session deleted''
       \<and> sessionsCache (snd (deleteSession pf e1 cid st)) = (sessionsCache st)(cid := None)
       \<and> deleteSession pf e2 cid (snd (deleteSession pf e1 cid st))
           = (Deleted False ''Session not found'', snd (deleteSession pf e1 cid st))
       \<and> (truthy (openaiApiKey cfg) \<longrightarrow> cid \<noteq> [] \<longrightarrow>
            handler pf cfg e1 (action_body ''delete'' (Some cid)) st
              = (Inr (Deleted True ''Session deleted''), snd (deleteSession pf e1 cid st))
          \<and> handler pf cfg e2 (action_body ''delete'' (Some cid)) (snd (deleteSession pf e1 cid st))
              = (Inr (Deleted False ''Session not found''), snd (deleteSession pf e1 cid st)))"
proof -
  let ?st1 = "snd (deleteSession pf e1 cid st)"
  have first: "fst (deleteSession pf e1 cid st) = Deleted True ''Session deleted''"
    using assms by (simp add: deleteSession_result)
  have gone: "sessionsCache ?st1 cid = None"
    by (simp add: deleteSession_cache)
  have second: "deleteSession pf e2 cid ?st1 = (Deleted False ''Session not found'', ?st1)"
    using gone by (rule deleteSession_absent)
  show ?thesis
    using first second
    by (simp add: deleteSession_cache handler_delete action_body_def)
qed

theorem delete_twice_witness:
  "sessionsCache hello_store ''mcp-a'' = Some hello_session
   \<and> truthy (openaiApiKey configured)
   \<and> fst (deleteSession sample_platform sample_env ''mcp-a'' hello_store) = Deleted True ''Session deleted''
   \<and> sessionsCache (snd (deleteSession sample_platform sample_env ''mcp-a'' hello_store)) ''mcp-a'' = None
   \<and> fst (handler sample_platform configured sample_env (action_body ''delete'' (Some ''mcp-a''))
             (snd (deleteSession sample_platform sample_env ''mcp-a'' hello_store)))
       = Inr (Deleted False ''Session not found'')"
proof -
  have present: "sessionsCache hello_store ''mcp-a'' = Some hello_session"
    by (simp add: hello_store_cache)
  have key: "truthy (openaiApiKey configured)"
    by (simp add: configured_def truthy_def)
  show ?thesis
    using delete_twice [OF present, of sample_platform sample_env sample_env configured] present key
    by simp
qed

text \<open>
  C8. With the API key configured, a "create" request with a metadata bag returns a new id,
  the same metadata and \<open>messageCount: 0\<close>; a "get" request with that id, sent right after,
  succeeds and returns the same id, the same metadata and \<open>messageCount: 0\<close>.
\<close>

theorem create_then_get:
  assumes "truthy (openaiApiKey cfg)"
  shows "handler pf cfg e
           \<lparr> body_action = Some ''create'', body_conversationId = None, body_metadata = Some md,
             body_messages = None, body_data_conversationId = None \<rparr> st
         = (Inr (Created (generateId (random1 e) (random2 e)) md (toISOString pf (now e)) 0),
            snd (createSession pf e md st))
       \<and> handler pf cfg e' (action_body ''get'' (Some (generateId (random1 e) (random2 e))))
           (snd (createSession pf e md st))
         = (Inr (SessionInfo (generateId (random1 e) (random2 e)) md
                  (toISOString pf (now e)) (toISOString pf (now e)) 0),
            snd (createSession pf e md st))"
  using assms
  by (simp add: handler_def dispatch_def getSessionInfo_def createSession_result
      createSession_cache generateId_nonempty action_body_def case_prod_unfold)

theorem create_then_get_witness:
  "truthy (openaiApiKey configured)
   \<and> fst (handler sample_platform configured sample_env
        \<lparr> body_action = Some ''create'', body_conversationId = None,
          body_metadata = Some [(''client'', JStr ''web'')],
          body_messages = None, body_data_conversationId = None \<rparr> empty_store)
     = Inr (Created ''mcp-k3j9x0f2a1bq8w7e6r5t4y'' [(''client'', JStr ''web'')]
              ''1970-01-01T00:00:00.000Z'' 0)
   \<and> fst (handler sample_platform configured sample_env
        (action_body ''get'' (Some ''mcp-k3j9x0f2a1bq8w7e6r5t4y''))
        (snd (createSession sample_platform sample_env [(''client'', JStr ''web'')] empty_store)))
     = Inr (SessionInfo ''mcp-k3j9x0f2a1bq8w7e6r5t4y'' [(''client'', JStr ''web'')]
              ''1970-01-01T00:00:00.000Z'' ''1970-01-01T00:00:00.000Z'' 0)"
proof -
  have key: "truthy (openaiApiKey configured)"
    by (simp add: configured_def truthy_def)
  have gid: "generateId (random1 sample_env) (random2 sample_env) = ''mcp-k3j9x0f2a1bq8w7e6r5t4y''"
    by (simp add: generateId_def sample_env_def)
  have iso: "toISOString sample_platform (now sample_env) = ''1970-01-01T00:00:00.000Z''"
    by (simp add: sample_platform_def ecmascript_def sample_env_def epoch_string)
  show ?thesis
    using create_then_get [OF key, of sample_platform sample_env "[(''client'', JStr ''web'')]"
        empty_store sample_env] key gid iso
    by simp
qed




text \<open>
  C10. Without an API key in the runtime configuration (absent, or the empty string) every
  request, whatever its action, fails with the 500 error "Missing OpenAI API key", and the
  session map and the file stay as they were.
\<close>

theorem missing_api_key_fails_every_request:
  assumes "\<not> truthy (openaiApiKey cfg)"
  shows "handler pf cfg e b st = (Inl (H3Error 500 ''Missing OpenAI API key''), st)"
  using assms by (simp add: handler_def)

theorem missing_api_key_fails_every_request_witness:
  "\<not> truthy (openaiApiKey \<lparr> openaiApiKey = None \<rparr>)
   \<and> handler sample_platform \<lparr> openaiApiKey = None \<rparr> sample_env (action_body ''create'' None) hello_store
     = (Inl (H3Error 500 ''Missing OpenAI API key''), hello_store)
   \<and> handler sample_platform \<lparr> openaiApiKey = Some [] \<rparr> sample_env
        (action_body ''delete'' (Some ''mcp-a'')) hello_store
     = (Inl (H3Error 500 ''Missing OpenAI API key''), hello_store)"
proof -
  have absent: "\<not> truthy (openaiApiKey \<lparr> openaiApiKey = None \<rparr>)"
    by (simp add: truthy_def)
  have blank: "\<not> truthy (openaiApiKey \<lparr> openaiApiKey = Some [] \<rparr>)"
    by (simp add: truthy_def)
  show ?thesis
    using missing_api_key_fails_every_request [OF absent, of sample_platform sample_env
        "action_body ''create'' None" hello_store]
      missing_api_key_fails_every_request [OF blank, of sample_platform sample_env
        "action_body ''delete'' (Some ''mcp-a'')" hello_store]
      absent
    by simp
qed

end
